theory Spec2Isabelle
  imports Complex_Main
begin

section \<open>Numbers, time and errors\<close>

text \<open>
  The ledger code of \<^verbatim>\<open>backtest/trade.py\<close>, \<^verbatim>\<open>backtest/portfolio.py\<close> and
  \<^verbatim>\<open>backtest/backtester.py\<close> computes with Python floats. Finite floats are
  idealised as real numbers: rounding, overflow and underflow are not modelled. A Python
  float division by zero raises \<^verbatim>\<open>ZeroDivisionError\<close>; that is a branch of the model.
  A \<^verbatim>\<open>datetime\<close> is the number of minutes since an epoch, so that its calendar date
  is the quotient by 1440.
\<close>

datatype error = ZeroDivisionError | ValueError

type_synonym datetime = int

section \<open>Trades (backtest/trade.py)\<close>

datatype TradeType = BUY | SELL

datatype TradeStatus = OPEN | CLOSED | PARTIAL_CLOSE

record Trade =
  ticket :: int
  symbol :: string
  trade_type :: TradeType
  entry_time :: datetime
  entry_price :: real
  volume :: real
  stop_loss :: real
  take_profit_partial :: real
  take_profit_final :: real
  status :: TradeStatus
  exit_time :: "datetime option"
  exit_price :: "real option"
  volume_open :: real
  volume_closed :: real
  profit :: real
  profit_pips :: real
  commission :: real
  swap :: real
  comment :: string
  break_even_triggered :: bool
  partial_close_triggered :: bool

text \<open>
  The constructor call of \<^verbatim>\<open>Backtester._open_trade\<close>: the nine positional fields and
  \<^verbatim>\<open>comment\<close> are given, every other field takes its dataclass default, and
  \<^verbatim>\<open>__post_init__\<close> sets \<^verbatim>\<open>volume_open = volume\<close>.
\<close>

definition Trade_init ::
  "int \<Rightarrow> string \<Rightarrow> TradeType \<Rightarrow> datetime \<Rightarrow> real \<Rightarrow> real \<Rightarrow> real \<Rightarrow> real \<Rightarrow> real \<Rightarrow> string \<Rightarrow> Trade" where
  "Trade_init tk sy ty etime eprice vol sl tpp tpf cmt =
     \<lparr>ticket = tk, symbol = sy, trade_type = ty, entry_time = etime, entry_price = eprice,
      volume = vol, stop_loss = sl, take_profit_partial = tpp, take_profit_final = tpf,
      status = OPEN, exit_time = None, exit_price = None,
      volume_open = vol, volume_closed = 0,
      profit = 0, profit_pips = 0, commission = 0, swap = 0,
      comment = cmt, break_even_triggered = False, partial_close_triggered = False\<rparr>"

definition pips_of :: "Trade \<Rightarrow> real \<Rightarrow> real" where
  "pips_of t price =
     (if trade_type t = BUY then (price - entry_price t) * 10000
      else (entry_price t - price) * 10000)"

definition update_profit :: "Trade \<Rightarrow> real \<Rightarrow> real \<Rightarrow> Trade" where
  "update_profit t current_price pip_value =
     (if status t = CLOSED then t
      else let pips = pips_of t current_price
           in t\<lparr>profit_pips := pips, profit := pips * pip_value * volume_open t\<rparr>)"

definition check_stop_loss :: "Trade \<Rightarrow> real \<Rightarrow> bool" where
  "check_stop_loss t current_price =
     (if trade_type t = BUY then current_price \<le> stop_loss t
      else current_price \<ge> stop_loss t)"

definition check_take_profit_partial :: "Trade \<Rightarrow> real \<Rightarrow> bool" where
  "check_take_profit_partial t current_price =
     (if partial_close_triggered t then False
      else if trade_type t = BUY then current_price \<ge> take_profit_partial t
      else current_price \<le> take_profit_partial t)"

definition check_take_profit_final :: "Trade \<Rightarrow> real \<Rightarrow> bool" where
  "check_take_profit_final t current_price =
     (if trade_type t = BUY then current_price \<ge> take_profit_final t
      else current_price \<le> take_profit_final t)"

text \<open>
  The mutating methods return the value that the Python method returns together with the
  trade after the call.
\<close>

definition close_partial :: "Trade \<Rightarrow> real \<Rightarrow> datetime \<Rightarrow> real \<Rightarrow> real \<Rightarrow> real \<times> Trade" where
  "close_partial t price time pip_value percent =
     (if status t = CLOSED then (0, t)
      else let volume_to_close = volume_open t * percent;
               pips = pips_of t price;
               partial_profit = pips * pip_value * volume_to_close
           in (partial_profit,
               t\<lparr>volume_closed := volume_closed t + volume_to_close,
                 volume_open := volume_open t - volume_to_close,
                 profit := profit t + partial_profit,
                 partial_close_triggered := True,
                 status := PARTIAL_CLOSE\<rparr>))"

definition move_to_break_even :: "Trade \<Rightarrow> Trade" where
  "move_to_break_even t =
     (if \<not> break_even_triggered t
      then t\<lparr>stop_loss := entry_price t, break_even_triggered := True\<rparr>
      else t)"

definition close :: "Trade \<Rightarrow> real \<Rightarrow> datetime \<Rightarrow> real \<Rightarrow> string \<Rightarrow> real \<times> Trade" where
  "close t price time pip_value reason =
     (if status t = CLOSED then (0, t)
      else let pips = pips_of t price;
               final_profit = pips * pip_value * volume_open t
           in (final_profit,
               t\<lparr>volume_closed := volume_closed t + volume_open t,
                 volume_open := 0,
                 profit := profit t + final_profit,
                 status := CLOSED,
                 exit_time := Some time,
                 exit_price := Some price,
                 comment := reason\<rparr>))"

section \<open>The account ledger (backtest/portfolio.py)\<close>

record EquityPoint =
  ep_time :: datetime
  ep_balance :: real
  ep_equity :: real
  ep_floating_pl :: real

record Portfolio =
  initial_balance :: real
  balance :: real
  equity :: real
  leverage :: int
  commission_per_lot :: real
  spread_pips :: real
  open_trades :: "Trade list"
  closed_trades :: "Trade list"
  total_trades :: int
  winning_trades :: int
  losing_trades :: int
  gross_profit :: real
  gross_loss :: real
  peak_balance :: real
  max_drawdown :: real
  max_drawdown_percent :: real
  equity_curve :: "EquityPoint list"
  daily_trades :: int
  daily_profit :: real
  current_date :: "datetime option"

definition Portfolio_init :: "real \<Rightarrow> int \<Rightarrow> real \<Rightarrow> real \<Rightarrow> Portfolio" where
  "Portfolio_init ib lev cpl sp =
     \<lparr>initial_balance = ib, balance = ib, equity = ib, leverage = lev,
      commission_per_lot = cpl, spread_pips = sp,
      open_trades = [], closed_trades = [],
      total_trades = 0, winning_trades = 0, losing_trades = 0,
      gross_profit = 0, gross_loss = 0,
      peak_balance = ib, max_drawdown = 0, max_drawdown_percent = 0,
      equity_curve = [],
      daily_trades = 0, daily_profit = 0, current_date = None\<rparr>"

text \<open>Python's \<^verbatim>\<open>"JPY" in symbol\<close>: the substring test.\<close>

fun starts_with :: "string \<Rightarrow> string \<Rightarrow> bool" where
  "starts_with [] s = True"
| "starts_with (c # cs) [] = False"
| "starts_with (c # cs) (d # ds) = (c = d \<and> starts_with cs ds)"

fun str_contains :: "string \<Rightarrow> string \<Rightarrow> bool" where
  "str_contains sub [] = (sub = [])"
| "str_contains sub (c # s) = (starts_with sub (c # s) \<or> str_contains sub s)"

definition get_pip_value :: "string \<Rightarrow> real \<Rightarrow> real" where
  "get_pip_value sy vol =
     (if str_contains ''JPY'' sy then 0.01 * vol * 100000
      else 0.0001 * vol * 100000)"

text \<open>
  Trade objects are held by value. A dataclass compares by its fields, so Python's
  \<^verbatim>\<open>trade in self.open_trades\<close> is list membership and \<^verbatim>\<open>list.remove\<close> deletes the
  first equal element. The trade handed to a ledger method is the object stored in
  \<^verbatim>\<open>open_trades\<close>; its mutation in place is the replacement of the first list element
  equal to it.
\<close>

fun replace1 :: "'a \<Rightarrow> 'a \<Rightarrow> 'a list \<Rightarrow> 'a list" where
  "replace1 x y [] = []"
| "replace1 x y (z # zs) = (if z = x then y # zs else z # replace1 x y zs)"

definition add_trade :: "Portfolio \<Rightarrow> Trade \<Rightarrow> Portfolio" where
  "add_trade p trade =
     (let c = commission_per_lot p * volume trade
      in p\<lparr>open_trades := open_trades p @ [trade\<lparr>commission := commission trade + c\<rparr>],
           total_trades := total_trades p + 1,
           balance := balance p - c\<rparr>)"

text \<open>
  The loop of \<^verbatim>\<open>update_equity\<close> over the open trades: the trades with their floating
  profit refreshed, and the running sum \<^verbatim>\<open>floating_pl\<close>.
\<close>

fun update_floating :: "(string \<rightharpoonup> real) \<Rightarrow> Trade list \<Rightarrow> real \<Rightarrow> Trade list \<times> real" where
  "update_floating prices [] fpl = ([], fpl)"
| "update_floating prices (t # ts) fpl =
     (case prices (symbol t) of
        None \<Rightarrow> (let (ts', f') = update_floating prices ts fpl in (t # ts', f'))
      | Some price \<Rightarrow>
          (let t' = update_profit t price (get_pip_value (symbol t) (volume t));
               (ts', f') = update_floating prices ts (fpl + profit t')
           in (t' # ts', f')))"

definition update_equity :: "Portfolio \<Rightarrow> datetime \<Rightarrow> (string \<rightharpoonup> real) \<Rightarrow> error + Portfolio" where
  "update_equity p current_time current_prices =
     (let (ts', floating_pl) = update_floating current_prices (open_trades p) 0;
          eq = balance p + floating_pl;
          peak = (if eq > peak_balance p then eq else peak_balance p);
          drawdown = peak - eq
      in if peak = 0 then Inl ZeroDivisionError
         else let drawdown_percent = (drawdown / peak) * 100;
                  grows = (drawdown > max_drawdown p)
              in Inr (p\<lparr>open_trades := ts',
                        equity := eq,
                        peak_balance := peak,
                        max_drawdown := (if grows then drawdown else max_drawdown p),
                        max_drawdown_percent :=
                          (if grows then drawdown_percent else max_drawdown_percent p),
                        equity_curve := equity_curve p @
                          [\<lparr>ep_time = current_time, ep_balance = balance p,
                            ep_equity = eq, ep_floating_pl = floating_pl\<rparr>]\<rparr>))"

definition close_trade :: "Portfolio \<Rightarrow> Trade \<Rightarrow> real \<Rightarrow> datetime \<Rightarrow> string \<Rightarrow> Portfolio" where
  "close_trade p trade price time reason =
     (if trade \<notin> set (open_trades p) then p
      else let pip_value = get_pip_value (symbol trade) (volume trade);
               (profit0, t1) = close trade price time pip_value reason;
               c = commission_per_lot p * volume_closed t1;
               net = profit0 - c;
               t2 = t1\<lparr>commission := commission t1 + c\<rparr>
           in p\<lparr>balance := balance p + net,
                winning_trades := (if net > 0 then winning_trades p + 1 else winning_trades p),
                gross_profit := (if net > 0 then gross_profit p + net else gross_profit p),
                losing_trades := (if net > 0 then losing_trades p else losing_trades p + 1),
                gross_loss := (if net > 0 then gross_loss p else gross_loss p + \<bar>net\<bar>),
                open_trades := remove1 t2 (replace1 trade t2 (open_trades p)),
                closed_trades := closed_trades p @ [t2],
                daily_trades := daily_trades p + 1,
                daily_profit := daily_profit p + net\<rparr>)"

definition partial_close_trade :: "Portfolio \<Rightarrow> Trade \<Rightarrow> real \<Rightarrow> datetime \<Rightarrow> real \<Rightarrow> Portfolio" where
  "partial_close_trade p trade price time percent =
     (if trade \<notin> set (open_trades p) then p
      else let pip_value = get_pip_value (symbol trade) (volume trade);
               (profit0, t1) = close_partial trade price time pip_value percent;
               vol_closed = volume t1 * percent;
               c = commission_per_lot p * vol_closed;
               net = profit0 - c;
               t2 = move_to_break_even (t1\<lparr>commission := commission t1 + c\<rparr>)
           in p\<lparr>balance := balance p + net,
                open_trades := replace1 trade t2 (open_trades p)\<rparr>)"



definition check_global_drawdown :: "Portfolio \<Rightarrow> real \<Rightarrow> bool" where
  "check_global_drawdown p max_dd_percent = (max_drawdown_percent p < max_dd_percent)"

section \<open>The simulation loop (backtest/backtester.py)\<close>

record Bar =
  bar_time :: datetime
  bar_open :: real
  bar_high :: real
  bar_low :: real
  bar_close :: real
  bar_volume :: real

datatype SignalType = Signal_NONE | Signal_BUY | Signal_SELL

fun signal_value :: "SignalType \<Rightarrow> string" where
  "signal_value Signal_NONE = ''NONE''"
| "signal_value Signal_BUY = ''BUY''"
| "signal_value Signal_SELL = ''SELL''"

text \<open>
  The fields of \<^verbatim>\<open>Backtester\<close> that the position management and the trade opening
  read; \<^verbatim>\<open>partial_close_percent\<close> holds the fraction (the constructor divides the
  percentage by 100).
\<close>

record Backtester =
  bt_symbol :: string
  bt_spread_pips :: real
  risk_per_trade :: real
  max_daily_trades :: int
  stop_loss_pips :: real
  rr_partial :: real
  rr_final :: real
  partial_close_percent :: real
  portfolio :: Portfolio
  ticket_counter :: int

text \<open>
  The first loop of \<^verbatim>\<open>_manage_open_positions\<close>: it fills \<^verbatim>\<open>trades_to_close\<close> (first
  component) and \<^verbatim>\<open>trades_to_partial_close\<close> (second component), in list order.
\<close>

fun scan_trades :: "Bar \<Rightarrow> Trade list \<Rightarrow> (Trade \<times> real \<times> string) list \<times> (Trade \<times> real) list" where
  "scan_trades bar [] = ([], [])"
| "scan_trades bar (t # ts) =
     (let (to_close, to_partial) = scan_trades bar ts
      in if check_stop_loss t (if trade_type t = BUY then bar_low bar else bar_high bar)
         then ((t, stop_loss t, ''Stop Loss'') # to_close, to_partial)
         else if check_take_profit_final t (if trade_type t = BUY then bar_high bar else bar_low bar)
         then ((t, take_profit_final t, ''Take Profit Final'') # to_close, to_partial)
         else if check_take_profit_partial t (if trade_type t = BUY then bar_high bar else bar_low bar)
         then (to_close, (t, take_profit_partial t) # to_partial)
         else (to_close, to_partial))"

definition manage_open_positions :: "Backtester \<Rightarrow> Bar \<Rightarrow> datetime \<Rightarrow> Backtester" where
  "manage_open_positions bt bar current_time =
     (let (to_close, to_partial) = scan_trades bar (open_trades (portfolio bt));
          p1 = foldl (\<lambda>p (t, price).
                  partial_close_trade p t price current_time (partial_close_percent bt))
                (portfolio bt) to_partial;
          p2 = foldl (\<lambda>p (t, price, reason). close_trade p t price current_time reason)
                p1 to_close
      in bt\<lparr>portfolio := p2\<rparr>)"

text \<open>
  \<^verbatim>\<open>round(x, 2)\<close> on real numbers: the nearest multiple of 0.01, a tie going to the
  even one.
\<close>

definition round_half_even :: "real \<Rightarrow> int" where
  "round_half_even x =
     (let f = \<lfloor>x\<rfloor>; d = x - of_int f
      in if d < 1 / 2 then f else if d > 1 / 2 then f + 1
         else if even f then f else f + 1)"

definition py_round :: "real \<Rightarrow> nat \<Rightarrow> real" where
  "py_round x ndigits = of_int (round_half_even (x * 10 ^ ndigits)) / 10 ^ ndigits"

definition calculate_lot_size :: "Backtester \<Rightarrow> real \<Rightarrow> real \<Rightarrow> real" where
  "calculate_lot_size bt entry sl =
     (let risk_amount = balance (portfolio bt) * (risk_per_trade bt / 100);
          sl_distance_pips = \<bar>entry - sl\<bar> * 10000
      in if sl_distance_pips = 0 then 0.01
         else let pip_value = 10;
                  lot_size = risk_amount / (sl_distance_pips * pip_value)
              in max 0.01 (py_round lot_size 2))"

text \<open>
  \<^verbatim>\<open>_open_trade\<close> returns nothing; the model returns the backtester after the call. The
  \<^verbatim>\<open>details\<close> argument is not read by the source and is left out.
\<close>

definition open_trade :: "Backtester \<Rightarrow> SignalType \<Rightarrow> Bar \<Rightarrow> datetime \<Rightarrow> Backtester" where
  "open_trade bt signal bar current_time =
     (let entry = (if signal = Signal_BUY then bar_close bar + bt_spread_pips bt * 0.0001
                   else bar_close bar);
          ty = (if signal = Signal_BUY then BUY else SELL);
          sl_distance = stop_loss_pips bt * 0.0001;
          sl = (if ty = BUY then entry - sl_distance else entry + sl_distance);
          tpp = (if ty = BUY then entry + sl_distance * rr_partial bt
                 else entry - sl_distance * rr_partial bt);
          tpf = (if ty = BUY then entry + sl_distance * rr_final bt
                 else entry - sl_distance * rr_final bt);
          vol = calculate_lot_size bt entry sl
      in if vol \<le> 0 then bt
         else let trade = Trade_init (ticket_counter bt) (bt_symbol bt) ty current_time entry
                            vol sl tpp tpf (''Signal: '' @ signal_value signal)
              in bt\<lparr>ticket_counter := ticket_counter bt + 1,
                    portfolio := add_trade (portfolio bt) trade\<rparr>)"

section \<open>The ledger's view in the statistics engine (backtest/statistics.py)\<close>

text \<open>
  \<^verbatim>\<open>Statistics._basic_stats\<close> over the closed trades: total, winners, losers and
  breakeven trades, by the sign of the recorded trade profit.
\<close>

record BasicStats =
  bs_total_trades :: nat
  bs_winning_trades :: nat
  bs_losing_trades :: nat
  bs_breakeven_trades :: nat

definition basic_stats :: "Trade list \<Rightarrow> BasicStats" where
  "basic_stats trades =
     \<lparr>bs_total_trades = length trades,
      bs_winning_trades = length (filter (\<lambda>t. profit t > 0) trades),
      bs_losing_trades = length (filter (\<lambda>t. profit t < 0) trades),
      bs_breakeven_trades = length (filter (\<lambda>t. profit t = 0) trades)\<rparr>"

section \<open>Indicator columns (pandas series)\<close>

text \<open>
  The indicator pass computes on pandas float columns, where a division by zero does not
  raise: it yields an infinity or NaN. A cell of such a column is a finite value (a real
  number, as above), an infinity or NaN, with the IEEE rules for the special values. The
  sign of a zero is not tracked: a non-zero finite value divided by zero is the infinity
  with the sign of the numerator.
\<close>

datatype fl = Fin real | PInf | NInf | NaN

fun fl_neg :: "fl \<Rightarrow> fl" where
  "fl_neg (Fin x) = Fin (- x)"
| "fl_neg PInf = NInf"
| "fl_neg NInf = PInf"
| "fl_neg NaN = NaN"

fun fl_add :: "fl \<Rightarrow> fl \<Rightarrow> fl" where
  "fl_add NaN y = NaN"
| "fl_add x NaN = NaN"
| "fl_add (Fin x) (Fin y) = Fin (x + y)"
| "fl_add PInf NInf = NaN"
| "fl_add NInf PInf = NaN"
| "fl_add PInf y = PInf"
| "fl_add NInf y = NInf"
| "fl_add (Fin x) y = y"

definition fl_sub :: "fl \<Rightarrow> fl \<Rightarrow> fl" where
  "fl_sub x y = fl_add x (fl_neg y)"

fun fl_mul :: "fl \<Rightarrow> fl \<Rightarrow> fl" where
  "fl_mul NaN y = NaN"
| "fl_mul x NaN = NaN"
| "fl_mul (Fin x) (Fin y) = Fin (x * y)"
| "fl_mul (Fin x) y = (if x = 0 then NaN else if x > 0 then y else fl_neg y)"
| "fl_mul x (Fin y) = (if y = 0 then NaN else if y > 0 then x else fl_neg x)"
| "fl_mul PInf y = y"
| "fl_mul NInf y = fl_neg y"

fun fl_div :: "fl \<Rightarrow> fl \<Rightarrow> fl" where
  "fl_div NaN y = NaN"
| "fl_div x NaN = NaN"
| "fl_div (Fin x) (Fin y) =
     (if y = 0 then (if x = 0 then NaN else if x > 0 then PInf else NInf)
      else Fin (x / y))"
| "fl_div (Fin x) y = Fin 0"
| "fl_div x (Fin y) = (if y \<ge> 0 then x else fl_neg x)"
| "fl_div x y = NaN"

text \<open>Comparisons with NaN are false.\<close>

fun fl_less :: "fl \<Rightarrow> fl \<Rightarrow> bool" where
  "fl_less NaN y = False"
| "fl_less x NaN = False"
| "fl_less (Fin x) (Fin y) = (x < y)"
| "fl_less NInf NInf = False"
| "fl_less NInf y = True"
| "fl_less x NInf = False"
| "fl_less PInf y = False"
| "fl_less (Fin x) PInf = True"

definition fl_isnan :: "fl \<Rightarrow> bool" where
  "fl_isnan x = (case x of NaN \<Rightarrow> True | _ \<Rightarrow> False)"

text \<open>\<^verbatim>\<open>Series.diff()\<close>: the first cell is NaN, each later cell is the increment.\<close>

definition series_diff :: "fl list \<Rightarrow> fl list" where
  "series_diff xs = (case xs of [] \<Rightarrow> [] | _ # ys \<Rightarrow> NaN # map2 fl_sub ys xs)"

text \<open>
  \<^verbatim>\<open>ewm(span=period, adjust=False).mean()\<close>, as pandas documents it:
  \<open>y\<^sub>0 = x\<^sub>0\<close> and \<open>y\<^sub>t = (1 - \<alpha>) y\<^bsub>t-1\<^esub> + \<alpha> x\<^sub>t\<close> with \<open>\<alpha> = 2 / (span + 1)\<close>; a span below 1 is
  refused with \<^verbatim>\<open>ValueError\<close>. The skipping of NaN observations is not modelled: the
  columns smoothed below hold no NaN.
\<close>

fun ewm_from :: "real \<Rightarrow> fl \<Rightarrow> fl list \<Rightarrow> fl list" where
  "ewm_from a y [] = []"
| "ewm_from a y (x # xs) =
     (let y' = fl_add (fl_mul (Fin (1 - a)) y) (fl_mul (Fin a) x) in y' # ewm_from a y' xs)"

definition ewm_mean :: "int \<Rightarrow> fl list \<Rightarrow> error + fl list" where
  "ewm_mean spn xs =
     (if spn < 1 then Inl ValueError
      else Inr (case xs of [] \<Rightarrow> [] | x # ys \<Rightarrow> x # ewm_from (2 / (of_int spn + 1)) x ys))"

text \<open>
  \<^verbatim>\<open>SignalEngineBT._add_rsi\<close> (backtest/signal_engine_bt.py), on the close column of
  finite prices: the columns \<^verbatim>\<open>gain\<close>, \<^verbatim>\<open>loss\<close>, their smoothed averages, and the
  \<^verbatim>\<open>rsi\<close> column.
\<close>

definition rsi_gain :: "real list \<Rightarrow> fl list" where
  "rsi_gain closes =
     map (\<lambda>d. if fl_less (Fin 0) d then d else Fin 0) (series_diff (map Fin closes))"

definition rsi_loss :: "real list \<Rightarrow> fl list" where
  "rsi_loss closes =
     map (\<lambda>d. fl_neg (if fl_less d (Fin 0) then d else Fin 0)) (series_diff (map Fin closes))"

definition rsi_of :: "fl \<Rightarrow> fl \<Rightarrow> fl" where
  "rsi_of avg_gain avg_loss =
     (let rs = fl_div avg_gain avg_loss
      in fl_sub (Fin 100) (fl_div (Fin 100) (fl_add (Fin 1) rs)))"

definition add_rsi :: "real list \<Rightarrow> int \<Rightarrow> error + fl list" where
  "add_rsi closes period =
     (case ewm_mean period (rsi_gain closes) of
        Inl e \<Rightarrow> Inl e
      | Inr avg_gain \<Rightarrow>
          (case ewm_mean period (rsi_loss closes) of
             Inl e \<Rightarrow> Inl e
           | Inr avg_loss \<Rightarrow> Inr (map2 rsi_of avg_gain avg_loss)))"

text \<open>
  \<^verbatim>\<open>SignalEngineBT._add_vwap\<close>: the typical price, the cumulative quotient over the whole
  frame, and, when the frame has a \<^verbatim>\<open>time\<close> column, the quotient recomputed inside each
  calendar date (\<^verbatim>\<open>groupby("date").apply\<close>) and assigned back to the \<^verbatim>\<open>vwap\<close> column.
  The rows carry the labels 0, 1, ... that the loaders give them. With two dates or more
  pandas stacks the per-date series and every row keeps its place. With a single date it
  returns a frame of one row and one column per bar, and the assignment of a frame to the
  one column raises \<^verbatim>\<open>ValueError\<close> unless that frame has exactly one column (a frame of
  one bar); with no row at all it returns an empty frame with the columns of the input,
  and the assignment raises as well.
\<close>

definition typical_price :: "Bar \<Rightarrow> real" where
  "typical_price b = (bar_high b + bar_low b + bar_close b) / 3"

fun cumsum_from :: "real \<Rightarrow> real list \<Rightarrow> real list" where
  "cumsum_from acc [] = []"
| "cumsum_from acc (x # xs) = (acc + x) # cumsum_from (acc + x) xs"

definition cumsum :: "real list \<Rightarrow> real list" where
  "cumsum xs = cumsum_from 0 xs"

definition cum_vwap :: "Bar list \<Rightarrow> fl list" where
  "cum_vwap df =
     map2 (\<lambda>a b. fl_div (Fin a) (Fin b))
       (cumsum (map (\<lambda>b. typical_price b * bar_volume b) df))
       (cumsum (map bar_volume df))"

definition date_of :: "datetime \<Rightarrow> int" where
  "date_of t = t div 1440"

definition group_vwap_at :: "Bar list \<Rightarrow> nat \<Rightarrow> fl" where
  "group_vwap_at df i =
     (let d = date_of (bar_time (df ! i));
          g = filter (\<lambda>b. date_of (bar_time b) = d) (take (Suc i) df)
      in fl_div (Fin (sum_list (map (\<lambda>b. typical_price b * bar_volume b) g)))
                (Fin (sum_list (map bar_volume g))))"

definition add_vwap :: "bool \<Rightarrow> Bar list \<Rightarrow> error + fl list" where
  "add_vwap has_time_column df =
     (if has_time_column
      then (let dates = remdups (map (\<lambda>b. date_of (bar_time b)) df)
            in if length dates \<ge> 2 \<or> length df = 1
               then Inr (map (group_vwap_at df) [0..<length df])
               else Inl ValueError)
      else Inr (cum_vwap df))"

text \<open>
  \<^verbatim>\<open>SignalEngine.calculate_vwap\<close> (core/signal_engine.py), the live engine's VWAP over
  the same columns: \<^verbatim>\<open>rolling(window=20).mean()\<close> is NaN before the window is full.
\<close>

definition rolling_mean :: "nat \<Rightarrow> real list \<Rightarrow> fl list" where
  "rolling_mean w xs =
     map (\<lambda>i. if Suc i < w then NaN
              else Fin (sum_list (take w (drop (Suc i - w) xs)) / real w))
       [0..<length xs]"

definition calculate_vwap :: "Bar list \<Rightarrow> fl list" where
  "calculate_vwap df =
     (if length df > 0 \<and> sum_list (map bar_volume df) > 0 then cum_vwap df
      else rolling_mean 20 (map typical_price df))"

text \<open>
  \<^verbatim>\<open>Statistics._drawdown_stats\<close> (backtest/statistics.py): the maximum drawdown and the
  maximum drawdown percentage recomputed from the equity curve. \<^verbatim>\<open>Series.max()\<close> skips
  NaN cells and is NaN when no cell is left.
\<close>

fun cummax_from :: "real \<Rightarrow> real list \<Rightarrow> real list" where
  "cummax_from m [] = []"
| "cummax_from m (x # xs) = max m x # cummax_from (max m x) xs"

definition cummax :: "real list \<Rightarrow> real list" where
  "cummax xs = (case xs of [] \<Rightarrow> [] | x # ys \<Rightarrow> x # cummax_from x ys)"

definition series_max :: "fl list \<Rightarrow> fl" where
  "series_max xs =
     (case filter (\<lambda>x. \<not> fl_isnan x) xs of
        [] \<Rightarrow> NaN
      | y # ys \<Rightarrow> foldl (\<lambda>m x. if fl_less m x then x else m) y ys)"

definition drawdown_stats :: "EquityPoint list \<Rightarrow> fl \<times> fl" where
  "drawdown_stats curve =
     (if curve = [] then (Fin 0, Fin 0)
      else let eq = map ep_equity curve;
               peak = cummax eq;
               drawdown = map2 (\<lambda>pk e. pk - e) peak eq;
               drawdown_pct = map2 (\<lambda>d pk. fl_mul (fl_div (Fin d) (Fin pk)) (Fin 100)) drawdown peak
           in (series_max (map Fin drawdown), series_max drawdown_pct))"

section \<open>Concrete runs\<close>

text \<open>
  The trade of the specification's scenarios: a BUY of one lot of EURUSD at 1.1000 with a
  stop of 12 pips and targets at twice and three times that distance.
\<close>

definition scenario_trade :: Trade where
  "scenario_trade = Trade_init 1 ''EURUSD'' BUY 0 1.1000 1 1.0988 1.1024 1.1036 ''Signal: BUY''"

definition closed_scenario_trade :: Trade where
  "closed_scenario_trade = snd (close scenario_trade 1.0988 5 10 ''Stop Loss'')"

text \<open>A ledger of 10000 without commission that holds the scenario trade.\<close>

definition scenario_portfolio :: Portfolio where
  "scenario_portfolio = add_trade (Portfolio_init 10000 100 0 1) scenario_trade"


text \<open>
  The three conditions that the loop of \<^verbatim>\<open>_manage_open_positions\<close> tests on a trade, in
  the order of the source: the stop-loss against the bar's low (BUY) or high (SELL), the
  final and the partial take-profit against the bar's high (BUY) or low (SELL).
\<close>

definition sl_hit :: "Bar \<Rightarrow> Trade \<Rightarrow> bool" where
  "sl_hit bar t = check_stop_loss t (if trade_type t = BUY then bar_low bar else bar_high bar)"

definition tp_final_hit :: "Bar \<Rightarrow> Trade \<Rightarrow> bool" where
  "tp_final_hit bar t =
     check_take_profit_final t (if trade_type t = BUY then bar_high bar else bar_low bar)"

definition tp_partial_hit :: "Bar \<Rightarrow> Trade \<Rightarrow> bool" where
  "tp_partial_hit bar t =
     check_take_profit_partial t (if trade_type t = BUY then bar_high bar else bar_low bar)"

text \<open>
  A backtester with the default parameters around the scenario ledger, and a bar whose
  low is under the stop (1.0988) while its high is over the partial target (1.1024).
\<close>

definition scenario_backtester :: Backtester where
  "scenario_backtester =
     \<lparr>bt_symbol = ''EURUSD'', bt_spread_pips = 1, risk_per_trade = 1, max_daily_trades = 10,
      stop_loss_pips = 12, rr_partial = 2, rr_final = 3, partial_close_percent = 0.5,
      portfolio = scenario_portfolio, ticket_counter = 2\<rparr>"

definition wide_bar :: Bar where
  "wide_bar = \<lparr>bar_time = 5, bar_open = 1.1, bar_high = 1.1030, bar_low = 1.0985,
               bar_close = 1.1, bar_volume = 0\<rparr>"

text \<open>
  Successive calls of \<^verbatim>\<open>update_equity\<close>, as the loop of \<^verbatim>\<open>Backtester.run\<close> makes
  them bar after bar; an exception ends the run.
\<close>

fun update_equity_seq :: "Portfolio \<Rightarrow> (datetime \<times> (string \<rightharpoonup> real)) list \<Rightarrow> error + Portfolio" where
  "update_equity_seq p [] = Inr p"
| "update_equity_seq p ((tm, prices) # rest) =
     (case update_equity p tm prices of
        Inl e \<Rightarrow> Inl e
      | Inr p' \<Rightarrow> update_equity_seq p' rest)"

text \<open>
  Four closes while the scenario trade stays open, none reaching its stop or a target:
  the equity goes 10000, 9900, 10200, 10099.
\<close>

definition drawdown_run :: "(datetime \<times> (string \<rightharpoonup> real)) list" where
  "drawdown_run =
     [(1, [''EURUSD'' \<mapsto> 1.1000]), (2, [''EURUSD'' \<mapsto> 1.0990]),
      (3, [''EURUSD'' \<mapsto> 1.1020]), (4, [''EURUSD'' \<mapsto> 1.10099])]"

text \<open>
  A ledger charging 7 per lot that holds the scenario trade, after the partial close of
  one half at 1.1024, and after the final close at 1.1036.
\<close>

definition commission_portfolio :: Portfolio where
  "commission_portfolio = add_trade (Portfolio_init 10000 100 7 1) scenario_trade"

definition after_partial :: Portfolio where
  "after_partial =
     partial_close_trade commission_portfolio (hd (open_trades commission_portfolio)) 1.1024 10 0.5"

definition after_final :: Portfolio where
  "after_final =
     close_trade after_partial (hd (open_trades after_partial)) 1.1036 20 ''Take Profit Final''"

text \<open>
  Twenty-one M5 bars without volume, as a feed without volume loads them, from 23:20 of
  one day to 01:00 of the next: the first eight bars are of the first date.
\<close>

definition zero_volume_bars :: "Bar list" where
  "zero_volume_bars =
     map (\<lambda>i. \<lparr>bar_time = 1400 + 5 * int i, bar_open = 1.1, bar_high = 1.2, bar_low = 1.0,
               bar_close = 1.1, bar_volume = 0\<rparr>) [0..<21]"

text \<open>
  A ledger charging 97.65625 per lot that holds a BUY of one lot of EURUSD entered at
  1.0, and the same ledger after closing that trade at 1.0009765625: 9.765625 pips, a
  gross profit of 97.65625, equal to the exit commission.
\<close>

definition net_zero_portfolio :: Portfolio where
  "net_zero_portfolio =
     add_trade (Portfolio_init 10000 100 97.65625 1)
       (Trade_init 1 ''EURUSD'' BUY 0 1 1 0.9988 1.0024 1.0036 ''Signal: BUY'')"

definition net_zero_closed :: Portfolio where
  "net_zero_closed =
     close_trade net_zero_portfolio (hd (open_trades net_zero_portfolio)) 1.0009765625 7
       ''End of backtest''"



text \<open>Three closes, each above the one before.\<close>

definition rising_closes :: "real list" where
  "rising_closes = [1.1000, 1.1010, 1.1020]"

section \<open>Operations on closed or unknown trades\<close>

text \<open>
  Claim C6. On a trade whose status is CLOSED, \<^verbatim>\<open>close\<close> and \<^verbatim>\<open>close_partial\<close> return
  0 and leave the trade as it is, every field included; on a trade that is not in the
  open collection, \<^verbatim>\<open>close_trade\<close> and \<^verbatim>\<open>partial_close_trade\<close> leave the ledger as it
  is.
\<close>

theorem closed_trade_noop:
  "(status t = CLOSED \<longrightarrow>
      close t price tm pv reason = (0, t) \<and> close_partial t price tm pv pct = (0, t)) \<and>
   (trade \<notin> set (open_trades p) \<longrightarrow>
      close_trade p trade price tm reason = p \<and> partial_close_trade p trade price tm pct = p)"
  by (simp add: close_def close_partial_def close_trade_def partial_close_trade_def)

theorem closed_trade_noop_witness:
  "status closed_scenario_trade = CLOSED \<and>
   close closed_scenario_trade 1.2 9 10 ''again'' = (0, closed_scenario_trade) \<and>
   close_partial closed_scenario_trade 1.2 9 10 0.5 = (0, closed_scenario_trade) \<and>
   closed_scenario_trade \<notin> set (open_trades (Portfolio_init 10000 100 0 1)) \<and>
   close_trade (Portfolio_init 10000 100 0 1) closed_scenario_trade 1.2 9 ''again''
     = Portfolio_init 10000 100 0 1 \<and>
   partial_close_trade (Portfolio_init 10000 100 0 1) closed_scenario_trade 1.2 9 0.5
     = Portfolio_init 10000 100 0 1"
proof -
  have c: "status closed_scenario_trade = CLOSED"
    by (simp add: closed_scenario_trade_def scenario_trade_def Trade_init_def close_def Let_def)
  have n: "closed_scenario_trade \<notin> set (open_trades (Portfolio_init 10000 100 0 1))"
    by (simp add: Portfolio_init_def)
  show ?thesis
    using c n closed_trade_noop [where t = closed_scenario_trade and price = "1.2" and tm = 9
        and pv = 10 and reason = "''again''" and pct = "0.5"
        and trade = closed_scenario_trade and p = "Portfolio_init 10000 100 0 1"]
    by blast
qed

section \<open>Volume accounting of a trade\<close>

text \<open>
  Claim C9. A trade satisfies \<open>volume_open + volume_closed = volume\<close> when it is created,
  and a partial close, a full close, a profit update and the move to break-even each keep
  the equation and the initial volume. The equation is exact on real numbers, hence within
  any tolerance.
\<close>

theorem volume_accounting:
  "volume_open (Trade_init tk sy ty et ep vol sl tpp tpf cmt)
     + volume_closed (Trade_init tk sy ty et ep vol sl tpp tpf cmt)
     = volume (Trade_init tk sy ty et ep vol sl tpp tpf cmt) \<and>
   (volume_open t + volume_closed t = volume t \<longrightarrow>
      (let t' = snd (close_partial t price tm pv pct)
       in volume_open t' + volume_closed t' = volume t' \<and> volume t' = volume t) \<and>
      (let t' = snd (close t price tm pv reason)
       in volume_open t' + volume_closed t' = volume t' \<and> volume t' = volume t) \<and>
      (let t' = update_profit t price pv
       in volume_open t' + volume_closed t' = volume t' \<and> volume t' = volume t) \<and>
      (let t' = move_to_break_even t
       in volume_open t' + volume_closed t' = volume t' \<and> volume t' = volume t))"
  by (simp add: Trade_init_def close_partial_def close_def update_profit_def
      move_to_break_even_def Let_def)

text \<open>
  The witness of claim C9 runs the scenario trade through a partial close of one half and
  through a full close.
\<close>

theorem volume_accounting_witness:
  "volume_open scenario_trade + volume_closed scenario_trade = volume scenario_trade \<and>
   volume_open (snd (close_partial scenario_trade 1.1024 3 10 0.5)) = 0.5 \<and>
   volume_closed (snd (close_partial scenario_trade 1.1024 3 10 0.5)) = 0.5 \<and>
   volume_open (snd (close_partial scenario_trade 1.1024 3 10 0.5))
     + volume_closed (snd (close_partial scenario_trade 1.1024 3 10 0.5)) = volume scenario_trade \<and>
   volume_open (snd (close scenario_trade 1.0988 5 10 ''Stop Loss''))
     + volume_closed (snd (close scenario_trade 1.0988 5 10 ''Stop Loss'')) = volume scenario_trade"
proof -
  have h: "volume_open scenario_trade + volume_closed scenario_trade = volume scenario_trade"
    by (simp add: scenario_trade_def Trade_init_def)
  have v: "volume_open (snd (close_partial scenario_trade 1.1024 3 10 0.5)) = 0.5"
    "volume_closed (snd (close_partial scenario_trade 1.1024 3 10 0.5)) = 0.5"
    by (simp_all add: scenario_trade_def Trade_init_def close_partial_def Let_def)
  show ?thesis
    using h v volume_accounting [where t = scenario_trade and price = "1.1024" and tm = 3
        and pv = 10 and pct = "0.5"]
      volume_accounting [where t = scenario_trade and price = "1.0988" and tm = 5
        and pv = 10 and reason = "''Stop Loss''"]
    by (simp add: Let_def)
qed

section \<open>Breakeven trades in the ledger's tallies\<close>

lemma scenario_portfolio_open: "open_trades scenario_portfolio = [scenario_trade]"
  by (simp add: scenario_portfolio_def add_trade_def Portfolio_init_def scenario_trade_def
      Trade_init_def)

lemma close_recorded_profit:
  "profit (snd (close t price tm pv reason)) = profit t + fst (close t price tm pv reason)"
  by (simp add: close_def Let_def)

lemma close_trade_recorded_profit:
  "trade \<in> set (open_trades p) \<Longrightarrow>
   profit (last (closed_trades (close_trade p trade price tm reason)))
     = profit (snd (close trade price tm (get_pip_value (symbol trade) (volume trade)) reason))"
  by (simp add: close_trade_def Let_def case_prod_beta)

text \<open>
  Claim C10, as stated, fails in its last part: the statistics engine does not always
  file these trades under breakeven. On the ledger charging 97.65625 per lot, the close
  at 1.0009765625 leaves the balance as it was, a net profit of zero, and the ledger
  counts a loss of 0; the trade records its gross profit of 97.65625, and
  \<^verbatim>\<open>_basic_stats\<close> counts it as a winner.
\<close>

theorem breakeven_statistics_counterexample:
  "hd (open_trades net_zero_portfolio) \<in> set (open_trades net_zero_portfolio) \<and>
   balance net_zero_closed = balance net_zero_portfolio \<and>
   losing_trades net_zero_closed = 1 \<and>
   winning_trades net_zero_closed = 0 \<and>
   gross_loss net_zero_closed = 0 \<and>
   map profit (closed_trades net_zero_closed) = [97.65625] \<and>
   bs_winning_trades (basic_stats (closed_trades net_zero_closed)) = 1 \<and>
   bs_breakeven_trades (basic_stats (closed_trades net_zero_closed)) = 0"
  by code_simp

text \<open>
  Claim C10, amended. When \<^verbatim>\<open>close_trade\<close> closes an open trade and the profit of that
  close, net of the exit commission, is exactly zero, the ledger counts one more losing
  trade, no more winning trade, and adds nothing to the gross loss or the gross profit.
  The statistics engine classifies the closed trade by the profit recorded on it, which is
  the profit recorded before the close plus the gross profit of the close: breakeven when
  that is zero, winner when it is positive, loser when it is negative.
\<close>

theorem breakeven_counts_as_loss:
  assumes "trade \<in> set (open_trades p)"
    and "fst (close trade price tm (get_pip_value (symbol trade) (volume trade)) reason)
         - commission_per_lot p
           * volume_closed (snd (close trade price tm (get_pip_value (symbol trade) (volume trade)) reason))
         = 0"
  shows "losing_trades (close_trade p trade price tm reason) = losing_trades p + 1 \<and>
         winning_trades (close_trade p trade price tm reason) = winning_trades p \<and>
         gross_loss (close_trade p trade price tm reason) = gross_loss p \<and>
         gross_profit (close_trade p trade price tm reason) = gross_profit p \<and>
         profit (last (closed_trades (close_trade p trade price tm reason)))
           = profit trade
             + fst (close trade price tm (get_pip_value (symbol trade) (volume trade)) reason) \<and>
         bs_winning_trades (basic_stats [last (closed_trades (close_trade p trade price tm reason))])
           = (if profit (last (closed_trades (close_trade p trade price tm reason))) > 0
              then 1 else 0) \<and>
         bs_losing_trades (basic_stats [last (closed_trades (close_trade p trade price tm reason))])
           = (if profit (last (closed_trades (close_trade p trade price tm reason))) < 0
              then 1 else 0) \<and>
         bs_breakeven_trades (basic_stats [last (closed_trades (close_trade p trade price tm reason))])
           = (if profit (last (closed_trades (close_trade p trade price tm reason))) = 0
              then 1 else 0)"
proof -
  have pr: "profit (last (closed_trades (close_trade p trade price tm reason)))
      = profit trade
        + fst (close trade price tm (get_pip_value (symbol trade) (volume trade)) reason)"
    using assms(1) close_trade_recorded_profit close_recorded_profit by simp
  have ledger: "losing_trades (close_trade p trade price tm reason) = losing_trades p + 1 \<and>
         winning_trades (close_trade p trade price tm reason) = winning_trades p \<and>
         gross_loss (close_trade p trade price tm reason) = gross_loss p \<and>
         gross_profit (close_trade p trade price tm reason) = gross_profit p"
    using assms by (simp add: close_trade_def Let_def case_prod_beta)
  show ?thesis
    using ledger pr by (simp add: basic_stats_def)
qed

theorem breakeven_counts_as_loss_witness:
  "scenario_trade \<in> set (open_trades scenario_portfolio) \<and>
   losing_trades (close_trade scenario_portfolio scenario_trade 1.1 7 ''End of backtest'') = 1 \<and>
   winning_trades (close_trade scenario_portfolio scenario_trade 1.1 7 ''End of backtest'') = 0 \<and>
   gross_loss (close_trade scenario_portfolio scenario_trade 1.1 7 ''End of backtest'') = 0 \<and>
   bs_losing_trades (basic_stats (closed_trades
      (close_trade scenario_portfolio scenario_trade 1.1 7 ''End of backtest''))) = 0 \<and>
   bs_breakeven_trades (basic_stats (closed_trades
      (close_trade scenario_portfolio scenario_trade 1.1 7 ''End of backtest''))) = 1"
proof -
  have m: "scenario_trade \<in> set (open_trades scenario_portfolio)"
    by (simp add: scenario_portfolio_open)
  have z: "fst (close scenario_trade 1.1 7
              (get_pip_value (symbol scenario_trade) (volume scenario_trade)) ''End of backtest'')
           - commission_per_lot scenario_portfolio
             * volume_closed (snd (close scenario_trade 1.1 7
                 (get_pip_value (symbol scenario_trade) (volume scenario_trade)) ''End of backtest''))
           = 0"
    by (simp add: scenario_portfolio_def add_trade_def Portfolio_init_def scenario_trade_def
        Trade_init_def close_def pips_of_def Let_def)
  have c: "closed_trades scenario_portfolio = []"
    by (simp add: scenario_portfolio_def add_trade_def Portfolio_init_def)
  have l: "losing_trades scenario_portfolio = 0" "winning_trades scenario_portfolio = 0"
    "gross_loss scenario_portfolio = 0"
    by (simp_all add: scenario_portfolio_def add_trade_def Portfolio_init_def Let_def)
  have g: "profit scenario_trade
      + fst (close scenario_trade 1.1 7
          (get_pip_value (symbol scenario_trade) (volume scenario_trade)) ''End of backtest'') = 0"
    by (simp add: scenario_trade_def Trade_init_def close_def pips_of_def Let_def)
  let ?p = "close_trade scenario_portfolio scenario_trade 1.1 7 ''End of backtest''"
  note T = breakeven_counts_as_loss [OF m z]
  have cl: "closed_trades ?p = [last (closed_trades ?p)]"
    using m c by (simp add: close_trade_def Let_def case_prod_beta)
  have pr: "profit (last (closed_trades ?p)) = 0"
    using T g by simp
  have bs: "bs_losing_trades (basic_stats (closed_trades ?p)) = 0 \<and>
            bs_breakeven_trades (basic_stats (closed_trades ?p)) = 1"
    using T pr by (subst cl, subst (2) cl) simp
  show ?thesis
    using T bs m by (simp add: l)
qed

section \<open>Lot sizing and the opening of a trade\<close>

lemma py_round_granularity: "\<exists>k::int. py_round x 2 = of_int k / 100"
  by (simp add: py_round_def)

text \<open>
  Claim C7. For every balance, risk setting, entry and stop, \<^verbatim>\<open>_calculate_lot_size\<close>
  returns a multiple of 0.01 that is at least 0.01, and exactly 0.01 when entry and stop
  coincide. The size is therefore positive, the test \<^verbatim>\<open>volume <= 0\<close> of
  \<^verbatim>\<open>_open_trade\<close> never holds, and every call of \<^verbatim>\<open>_open_trade\<close> adds one trade to
  the ledger, with the current ticket and that size.
\<close>

theorem lot_size_floor:
  "calculate_lot_size bt entry sl \<ge> 0.01 \<and>
   (\<exists>k::int. calculate_lot_size bt entry sl = of_int k / 100) \<and>
   calculate_lot_size bt entry entry = 0.01 \<and>
   calculate_lot_size bt entry sl > 0 \<and>
   (\<exists>trade. portfolio (open_trade bt signal bar tm) = add_trade (portfolio bt) trade \<and>
      volume trade \<ge> 0.01 \<and> ticket trade = ticket_counter bt \<and> status trade = OPEN) \<and>
   length (open_trades (portfolio (open_trade bt signal bar tm)))
     = length (open_trades (portfolio bt)) + 1"
proof -
  have ge: "calculate_lot_size bt e s \<ge> 0.01" for e s
    by (simp add: calculate_lot_size_def Let_def max_def)
  have gran: "\<exists>k::int. calculate_lot_size bt entry sl = of_int k / 100"
  proof -
    obtain k :: int where k: "py_round (balance (portfolio bt) * (risk_per_trade bt / 100)
          / (\<bar>entry - sl\<bar> * 10000 * 10)) 2 = of_int k / 100"
      using py_round_granularity by blast
    have "calculate_lot_size bt entry sl = of_int 1 / 100 \<or>
          calculate_lot_size bt entry sl = of_int k / 100"
      using k by (auto simp add: calculate_lot_size_def Let_def max_def)
    then show ?thesis by blast
  qed
  have z: "calculate_lot_size bt entry entry = 0.01"
    by (simp add: calculate_lot_size_def)
  have pos: "calculate_lot_size bt e s > 0" for e s
  proof -
    have "(0::real) < 0.01" by simp
    then show ?thesis using ge [of e s] by (rule less_le_trans)
  qed
  have op: "\<exists>trade. portfolio (open_trade bt signal bar tm) = add_trade (portfolio bt) trade \<and>
      volume trade \<ge> 0.01 \<and> ticket trade = ticket_counter bt \<and> status trade = OPEN"
    using pos ge
    by (auto simp add: open_trade_def Let_def Trade_init_def not_le [symmetric] simp del: not_le)
  have len: "length (open_trades (portfolio (open_trade bt signal bar tm)))
     = length (open_trades (portfolio bt)) + 1"
    using op by (auto simp add: add_trade_def Let_def)
  show ?thesis using ge gran z pos op len by blast
qed

section \<open>Daily limits\<close>




section \<open>One close path per trade and bar\<close>

lemma scan_trades_lists:
  "scan_trades bar ts =
     (map (\<lambda>t. if sl_hit bar t then (t, stop_loss t, ''Stop Loss'')
                else (t, take_profit_final t, ''Take Profit Final''))
        (filter (\<lambda>t. sl_hit bar t \<or> tp_final_hit bar t) ts),
      map (\<lambda>t. (t, take_profit_partial t))
        (filter (\<lambda>t. \<not> sl_hit bar t \<and> \<not> tp_final_hit bar t \<and> tp_partial_hit bar t) ts))"
  by (induction ts) (simp_all add: sl_hit_def tp_final_hit_def tp_partial_hit_def)

lemma manage_single:
  assumes "open_trades (portfolio bt) = [t]"
  shows "portfolio (manage_open_positions bt bar tm) =
     (if sl_hit bar t then close_trade (portfolio bt) t (stop_loss t) tm ''Stop Loss''
      else if tp_final_hit bar t
        then close_trade (portfolio bt) t (take_profit_final t) tm ''Take Profit Final''
      else if tp_partial_hit bar t
        then partial_close_trade (portfolio bt) t (take_profit_partial t) tm (partial_close_percent bt)
      else portfolio bt)"
  using assms by (simp add: manage_open_positions_def scan_trades_lists)

lemma close_trade_single:
  assumes "open_trades p = [t]" and "status t \<noteq> CLOSED"
  shows "open_trades (close_trade p t price tm reason) = [] \<and>
         (\<exists>t'. closed_trades (close_trade p t price tm reason) = closed_trades p @ [t'] \<and>
            status t' = CLOSED \<and> exit_price t' = Some price \<and> comment t' = reason \<and>
            volume_open t' = 0 \<and> volume_closed t' = volume_closed t + volume_open t \<and>
            partial_close_triggered t' = partial_close_triggered t \<and>
            stop_loss t' = stop_loss t)"
  using assms by (simp add: close_trade_def close_def Let_def)

text \<open>
  Claim C5. The scan of a bar puts a trade on the list of full closes, at its stop price,
  when the stop-loss condition holds; on the same list, at its final target, when the
  stop-loss condition fails and the final take-profit condition holds; and on the list of
  partial closes only when both fail and the partial condition holds: no trade is on both
  lists. With one open trade, the management pass is then exactly one ledger call, chosen
  in that order, or none; and when the stop-loss or the final take-profit condition holds
  for a trade that is not yet closed, the trade leaves the open collection, is appended to
  the closed one with status CLOSED at the stop or final-target price, its whole open
  volume closed, and its partial-close flag and stop-loss as they were: no partial close
  took place on that bar.
\<close>

theorem one_close_path_per_bar:
  "scan_trades bar ts =
     (map (\<lambda>t. if sl_hit bar t then (t, stop_loss t, ''Stop Loss'')
                else (t, take_profit_final t, ''Take Profit Final''))
        (filter (\<lambda>t. sl_hit bar t \<or> tp_final_hit bar t) ts),
      map (\<lambda>t. (t, take_profit_partial t))
        (filter (\<lambda>t. \<not> sl_hit bar t \<and> \<not> tp_final_hit bar t \<and> tp_partial_hit bar t) ts)) \<and>
   (open_trades (portfolio bt) = [t] \<longrightarrow>
      portfolio (manage_open_positions bt bar tm) =
        (if sl_hit bar t then close_trade (portfolio bt) t (stop_loss t) tm ''Stop Loss''
         else if tp_final_hit bar t
           then close_trade (portfolio bt) t (take_profit_final t) tm ''Take Profit Final''
         else if tp_partial_hit bar t
           then partial_close_trade (portfolio bt) t (take_profit_partial t) tm
                  (partial_close_percent bt)
         else portfolio bt)) \<and>
   (open_trades (portfolio bt) = [t] \<and> status t \<noteq> CLOSED \<and>
    (sl_hit bar t \<or> tp_final_hit bar t) \<longrightarrow>
      open_trades (portfolio (manage_open_positions bt bar tm)) = [] \<and>
      (\<exists>t'. closed_trades (portfolio (manage_open_positions bt bar tm))
               = closed_trades (portfolio bt) @ [t'] \<and>
            status t' = CLOSED \<and>
            exit_price t' = Some (if sl_hit bar t then stop_loss t else take_profit_final t) \<and>
            comment t' = (if sl_hit bar t then ''Stop Loss'' else ''Take Profit Final'') \<and>
            volume_open t' = 0 \<and> volume_closed t' = volume_closed t + volume_open t \<and>
            partial_close_triggered t' = partial_close_triggered t \<and>
            stop_loss t' = stop_loss t))"
proof (intro conjI impI)
  show "scan_trades bar ts =
     (map (\<lambda>t. if sl_hit bar t then (t, stop_loss t, ''Stop Loss'')
                else (t, take_profit_final t, ''Take Profit Final''))
        (filter (\<lambda>t. sl_hit bar t \<or> tp_final_hit bar t) ts),
      map (\<lambda>t. (t, take_profit_partial t))
        (filter (\<lambda>t. \<not> sl_hit bar t \<and> \<not> tp_final_hit bar t \<and> tp_partial_hit bar t) ts))"
    by (rule scan_trades_lists)
next
  assume "open_trades (portfolio bt) = [t]"
  then show "portfolio (manage_open_positions bt bar tm) =
        (if sl_hit bar t then close_trade (portfolio bt) t (stop_loss t) tm ''Stop Loss''
         else if tp_final_hit bar t
           then close_trade (portfolio bt) t (take_profit_final t) tm ''Take Profit Final''
         else if tp_partial_hit bar t
           then partial_close_trade (portfolio bt) t (take_profit_partial t) tm
                  (partial_close_percent bt)
         else portfolio bt)"
    by (rule manage_single)
next
  assume a: "open_trades (portfolio bt) = [t] \<and> status t \<noteq> CLOSED \<and>
    (sl_hit bar t \<or> tp_final_hit bar t)"
  then show "open_trades (portfolio (manage_open_positions bt bar tm)) = []"
    using manage_single [of bt t bar tm] close_trade_single [of "portfolio bt" t]
    by (simp split: if_splits)
next
  assume a: "open_trades (portfolio bt) = [t] \<and> status t \<noteq> CLOSED \<and>
    (sl_hit bar t \<or> tp_final_hit bar t)"
  then show "\<exists>t'. closed_trades (portfolio (manage_open_positions bt bar tm))
               = closed_trades (portfolio bt) @ [t'] \<and>
            status t' = CLOSED \<and>
            exit_price t' = Some (if sl_hit bar t then stop_loss t else take_profit_final t) \<and>
            comment t' = (if sl_hit bar t then ''Stop Loss'' else ''Take Profit Final'') \<and>
            volume_open t' = 0 \<and> volume_closed t' = volume_closed t + volume_open t \<and>
            partial_close_triggered t' = partial_close_triggered t \<and>
            stop_loss t' = stop_loss t"
    using manage_single [of bt t bar tm] close_trade_single [of "portfolio bt" t]
    by (simp split: if_splits)
qed

theorem one_close_path_per_bar_witness:
  "open_trades (portfolio scenario_backtester) = [scenario_trade] \<and>
   status scenario_trade \<noteq> CLOSED \<and>
   sl_hit wide_bar scenario_trade \<and> tp_partial_hit wide_bar scenario_trade \<and>
   scan_trades wide_bar [scenario_trade] = ([(scenario_trade, 1.0988, ''Stop Loss'')], []) \<and>
   open_trades (portfolio (manage_open_positions scenario_backtester wide_bar 5)) = [] \<and>
   (\<exists>t'. closed_trades (portfolio (manage_open_positions scenario_backtester wide_bar 5)) = [t'] \<and>
      status t' = CLOSED \<and> exit_price t' = Some 1.0988 \<and> comment t' = ''Stop Loss'' \<and>
      volume_closed t' = 1 \<and> \<not> partial_close_triggered t' \<and> stop_loss t' = 1.0988)"
proof -
  have o: "open_trades (portfolio scenario_backtester) = [scenario_trade]"
    by (simp add: scenario_backtester_def scenario_portfolio_open)
  have c: "closed_trades (portfolio scenario_backtester) = []"
    by (simp add: scenario_backtester_def scenario_portfolio_def add_trade_def Portfolio_init_def)
  have s: "status scenario_trade \<noteq> CLOSED"
    by (simp add: scenario_trade_def Trade_init_def)
  have h: "sl_hit wide_bar scenario_trade" "tp_partial_hit wide_bar scenario_trade"
    by (simp_all add: sl_hit_def tp_partial_hit_def check_stop_loss_def
        check_take_profit_partial_def wide_bar_def scenario_trade_def Trade_init_def)
  have f: "stop_loss scenario_trade = 1.0988" "volume_closed scenario_trade = 0"
    "volume_open scenario_trade = 1" "\<not> partial_close_triggered scenario_trade"
    by (simp_all add: scenario_trade_def Trade_init_def)
  note T = one_close_path_per_bar
    [of wide_bar "[scenario_trade]" scenario_backtester scenario_trade 5]
  have sc: "scan_trades wide_bar [scenario_trade]
      = ([(scenario_trade, stop_loss scenario_trade, ''Stop Loss'')], [])"
    using T [THEN conjunct1] by (simp add: h(1))
  have pre: "open_trades (portfolio scenario_backtester) = [scenario_trade] \<and>
      status scenario_trade \<noteq> CLOSED \<and>
      (sl_hit wide_bar scenario_trade \<or> tp_final_hit wide_bar scenario_trade)"
    using o s h(1) by simp
  have cl: "open_trades (portfolio (manage_open_positions scenario_backtester wide_bar 5)) = [] \<and>
      (\<exists>t'. closed_trades (portfolio (manage_open_positions scenario_backtester wide_bar 5))
               = closed_trades (portfolio scenario_backtester) @ [t'] \<and>
            status t' = CLOSED \<and>
            exit_price t' = Some (stop_loss scenario_trade) \<and>
            comment t' = ''Stop Loss'' \<and>
            volume_open t' = 0 \<and>
            volume_closed t' = volume_closed scenario_trade + volume_open scenario_trade \<and>
            partial_close_triggered t' = partial_close_triggered scenario_trade \<and>
            stop_loss t' = stop_loss scenario_trade)"
    using T [THEN conjunct2, THEN conjunct2, THEN mp, OF pre] by (simp only: h(1) if_True)
  then obtain t' where t': "closed_trades (portfolio (manage_open_positions scenario_backtester wide_bar 5))
               = closed_trades (portfolio scenario_backtester) @ [t']"
      "status t' = CLOSED" "exit_price t' = Some (stop_loss scenario_trade)"
      "comment t' = ''Stop Loss''"
      "volume_closed t' = volume_closed scenario_trade + volume_open scenario_trade"
      "partial_close_triggered t' = partial_close_triggered scenario_trade"
      "stop_loss t' = stop_loss scenario_trade"
    by blast
  have ex: "\<exists>t'. closed_trades (portfolio (manage_open_positions scenario_backtester wide_bar 5)) = [t'] \<and>
      status t' = CLOSED \<and> exit_price t' = Some 1.0988 \<and> comment t' = ''Stop Loss'' \<and>
      volume_closed t' = 1 \<and> \<not> partial_close_triggered t' \<and> stop_loss t' = 1.0988"
    using t' c f by (intro exI [of _ t']) simp
  show ?thesis
    using o s h sc cl ex f(1) by simp
qed

section \<open>The ledger's maximum drawdown percentage\<close>

lemma pip_value_eurusd: "get_pip_value ''EURUSD'' v = v * 10"
  by (simp add: get_pip_value_def)

text \<open>
  Claim C1 (the code departs from it). \<^verbatim>\<open>update_equity\<close> overwrites
  \<^verbatim>\<open>max_drawdown_percent\<close> whenever the absolute drawdown reaches a new maximum, with the
  percentage of that moment. On the run below the recorded percentage is 1 after the
  second update (drawdown 100 under a peak of 10000) and 101/102 after the fourth
  (drawdown 101 under a peak of 10200): it has decreased. \<^verbatim>\<open>Statistics._drawdown_stats\<close>
  on the equity curve of the same run reports the running maximum, 1.
\<close>

theorem max_drawdown_percent_decreases:
  "map_sum id max_drawdown_percent
     (update_equity_seq scenario_portfolio (take 2 drawdown_run)) = Inr 1 \<and>
   map_sum id max_drawdown
     (update_equity_seq scenario_portfolio (take 2 drawdown_run)) = Inr 100 \<and>
   map_sum id max_drawdown_percent
     (update_equity_seq scenario_portfolio drawdown_run) = Inr (101 / 102) \<and>
   map_sum id max_drawdown
     (update_equity_seq scenario_portfolio drawdown_run) = Inr 101 \<and>
   map_sum id (\<lambda>p. map ep_equity (equity_curve p))
     (update_equity_seq scenario_portfolio drawdown_run) = Inr [10000, 9900, 10200, 10099] \<and>
   map_sum id (\<lambda>p. drawdown_stats (equity_curve p))
     (update_equity_seq scenario_portfolio drawdown_run) = Inr (Fin 101, Fin 1)"
  by code_simp

section \<open>Commission of the final close after a partial close\<close>

text \<open>
  Claim C2 (the code departs from it). \<^verbatim>\<open>close_trade\<close> computes the exit commission
  from \<^verbatim>\<open>trade.volume_closed\<close> after \<^verbatim>\<open>Trade.close\<close> has added the remaining volume to
  it, that is from the cumulative closed volume. For the scenario trade of one lot at 7
  per lot, half closed at 1.1024 and the rest at 1.1036, the final close moves the
  balance by 36 pips x 10 x 0.5 - 7 x 1 = 173, while pips x pip value less the
  commission on the 0.5 lot closed in that event is 176.5.
\<close>

theorem final_close_commission_on_cumulative_volume:
  "balance after_partial - balance commission_portfolio = 24 * 10 * 0.5 - 7 * 0.5 \<and>
   volume_open (hd (open_trades after_partial)) = 0.5 \<and>
   volume_closed (hd (open_trades after_partial)) = 0.5 \<and>
   balance after_final - balance after_partial = 36 * 10 * 0.5 - 7 * 1 \<and>
   balance after_final - balance after_partial = 173 \<and>
   pips_of (hd (open_trades after_partial)) 1.1036
       * get_pip_value ''EURUSD'' (volume_open (hd (open_trades after_partial)))
     - commission_per_lot after_partial * volume_open (hd (open_trades after_partial)) = 176.5"
  by code_simp

section \<open>VWAP on a feed without volume\<close>

text \<open>
  Claim C3 (the code departs from it). \<^verbatim>\<open>SignalEngineBT._add_vwap\<close> has no fallback: on
  the twenty-one bars below, of two calendar dates and without volume, each cell of the
  \<^verbatim>\<open>vwap\<close> column is 0/0, NaN, with the per-date regrouping and without it; on the
  eight bars of the first date alone the regrouping raises \<^verbatim>\<open>ValueError\<close>. In neither
  case is there a column of moving averages. \<^verbatim>\<open>SignalEngine.calculate_vwap\<close> of the
  live engine falls back to the 20-bar mean of the typical price, which is defined from
  the twentieth bar on.
\<close>

theorem vwap_zero_volume_is_nan:
  "remdups (map (\<lambda>b. date_of (bar_time b)) zero_volume_bars) = [0, 1] \<and>
   add_vwap True zero_volume_bars = Inr (replicate 21 NaN) \<and>
   add_vwap False zero_volume_bars = Inr (replicate 21 NaN) \<and>
   add_vwap True (take 8 zero_volume_bars) = Inl ValueError \<and>
   calculate_vwap zero_volume_bars = replicate 19 NaN @ [Fin 1.1, Fin 1.1]"
  by code_simp

section \<open>RSI where the average loss is zero\<close>

lemma map2_fl_sub_Fin:
  "map2 fl_sub (map Fin xs) (map Fin ys) = map Fin (map2 (\<lambda>a b. a - b) xs ys)"
proof (induction xs arbitrary: ys)
  case Nil
  then show ?case by simp
next
  case (Cons x xs)
  then show ?case by (cases ys) (simp_all add: fl_sub_def)
qed

lemma series_diff_Fin:
  "series_diff (Fin c # map Fin ys) = NaN # map Fin (map2 (\<lambda>a b. a - b) ys (c # ys))"
  using map2_fl_sub_Fin [of ys "c # ys"] by (simp add: series_diff_def)

lemma rsi_gain_Fin:
  "\<exists>gs. rsi_gain cs = map Fin gs \<and> length gs = length cs \<and> (\<forall>g\<in>set gs. 0 \<le> g)"
proof (cases cs)
  case Nil
  then show ?thesis by (simp add: rsi_gain_def series_diff_def)
next
  case (Cons c ys)
  let ?gs = "0 # map (\<lambda>d. if 0 < d then d else 0) (map2 (\<lambda>a b. a - b) ys (c # ys))"
  have "rsi_gain cs = map Fin ?gs"
    by (simp add: rsi_gain_def series_diff_Fin Cons del: zip_Cons_Cons)
  moreover have "length ?gs = length cs" by (simp add: Cons)
  moreover have "\<forall>g\<in>set ?gs. 0 \<le> g" by auto
  ultimately show ?thesis by blast
qed

lemma rsi_loss_Fin:
  "\<exists>ls. rsi_loss cs = map Fin ls \<and> length ls = length cs \<and> (\<forall>l\<in>set ls. 0 \<le> l)"
proof (cases cs)
  case Nil
  then show ?thesis by (simp add: rsi_loss_def series_diff_def)
next
  case (Cons c ys)
  let ?ls = "0 # map (\<lambda>d. if d < 0 then - d else 0) (map2 (\<lambda>a b. a - b) ys (c # ys))"
  have "rsi_loss cs = map Fin ?ls"
    by (simp add: rsi_loss_def series_diff_Fin Cons del: zip_Cons_Cons)
  moreover have "length ?ls = length cs" by (simp add: Cons)
  moreover have "\<forall>l\<in>set ?ls. 0 \<le> l" by auto
  ultimately show ?thesis by blast
qed

lemma ewm_from_Fin:
  "0 \<le> a \<Longrightarrow> a \<le> 1 \<Longrightarrow> 0 \<le> y \<Longrightarrow> \<forall>x\<in>set xs. 0 \<le> x \<Longrightarrow>
   \<exists>ys. ewm_from a (Fin y) (map Fin xs) = map Fin ys \<and> length ys = length xs \<and>
        (\<forall>v\<in>set ys. 0 \<le> v)"
proof (induction xs arbitrary: y)
  case Nil
  then show ?case by simp
next
  case (Cons x xs)
  let ?y = "(1 - a) * y + a * x"
  have y: "0 \<le> ?y" using Cons.prems by simp
  obtain ys where ys: "ewm_from a (Fin ?y) (map Fin xs) = map Fin ys"
    "length ys = length xs" "\<forall>v\<in>set ys. 0 \<le> v"
    using Cons.IH [OF Cons.prems(1) Cons.prems(2) y] Cons.prems(4) by auto
  have "ewm_from a (Fin y) (map Fin (x # xs)) = map Fin (?y # ys)"
    using ys(1) by (simp add: Let_def)
  moreover have "length (?y # ys) = length (x # xs)" using ys(2) by simp
  moreover have "\<forall>v\<in>set (?y # ys). 0 \<le> v" using ys(3) y by simp
  ultimately show ?case by blast
qed

lemma ewm_mean_Fin:
  assumes "1 \<le> period" and "\<forall>x\<in>set xs. 0 \<le> x"
  shows "\<exists>ys. ewm_mean period (map Fin xs) = Inr (map Fin ys) \<and> length ys = length xs \<and>
        (\<forall>v\<in>set ys. 0 \<le> v)"
proof (cases xs)
  case Nil
  then show ?thesis using assms by (simp add: ewm_mean_def)
next
  case (Cons x zs)
  let ?a = "2 / (of_int period + 1) :: real"
  have a: "0 \<le> ?a" "?a \<le> 1" using assms(1) by simp_all
  have x: "0 \<le> x" "\<forall>z\<in>set zs. 0 \<le> z" using assms(2) Cons by simp_all
  obtain ys where ys: "ewm_from ?a (Fin x) (map Fin zs) = map Fin ys"
    "length ys = length zs" "\<forall>v\<in>set ys. 0 \<le> v"
    using ewm_from_Fin [OF a x] by blast
  have "ewm_mean period (map Fin xs) = Inr (map Fin (x # ys))"
    using assms(1) ys(1) by (simp add: ewm_mean_def Cons)
  moreover have "length (x # ys) = length xs" using ys(2) Cons by simp
  moreover have "\<forall>v\<in>set (x # ys). 0 \<le> v" using ys(3) x by simp
  ultimately show ?thesis by blast
qed

lemma rsi_of_zero_loss:
  "0 \<le> g \<Longrightarrow> rsi_of (Fin g) (Fin 0) = (if g = 0 then NaN else Fin 100)"
  by (simp add: rsi_of_def fl_sub_def Let_def)

text \<open>
  Claim C4, as stated, fails on rising closes: the average loss is zero at every bar, and
  from the second bar on the RSI is 100, not NaN.
\<close>

theorem rsi_rising_closes_counterexample:
  "ewm_mean 14 (rsi_loss rising_closes) = Inr [Fin 0, Fin 0, Fin 0] \<and>
   add_rsi rising_closes 14 = Inr [NaN, Fin 100, Fin 100] \<and>
   Fin 100 \<noteq> NaN"
  by code_simp

text \<open>
  Claim C4, amended. For every series of finite closes and every period of at least 1,
  the indicator pass yields an RSI column as long as the series, and at every bar at
  which the smoothed average loss is zero the RSI is NaN when the smoothed average gain
  is zero as well, and 100 when it is not.
\<close>

theorem rsi_at_zero_average_loss:
  assumes "1 \<le> period"
  shows "\<exists>rsi avg_gain avg_loss.
           add_rsi closes period = Inr rsi \<and>
           ewm_mean period (rsi_gain closes) = Inr avg_gain \<and>
           ewm_mean period (rsi_loss closes) = Inr avg_loss \<and>
           length rsi = length closes \<and>
           (\<forall>i < length closes. avg_loss ! i = Fin 0 \<longrightarrow>
              rsi ! i = (if avg_gain ! i = Fin 0 then NaN else Fin 100))"
proof -
  obtain gs where gs: "rsi_gain closes = map Fin gs" "length gs = length closes"
    "\<forall>g\<in>set gs. 0 \<le> g"
    using rsi_gain_Fin by blast
  obtain ls where ls: "rsi_loss closes = map Fin ls" "length ls = length closes"
    "\<forall>l\<in>set ls. 0 \<le> l"
    using rsi_loss_Fin by blast
  obtain ag where ag: "ewm_mean period (map Fin gs) = Inr (map Fin ag)"
    "length ag = length gs" "\<forall>v\<in>set ag. 0 \<le> v"
    using ewm_mean_Fin [OF assms gs(3)] by blast
  obtain al where al: "ewm_mean period (map Fin ls) = Inr (map Fin al)"
    "length al = length ls" "\<forall>v\<in>set al. 0 \<le> v"
    using ewm_mean_Fin [OF assms ls(3)] by blast
  let ?rsi = "map2 rsi_of (map Fin ag) (map Fin al)"
  have r: "add_rsi closes period = Inr ?rsi"
    by (simp add: add_rsi_def gs(1) ls(1) ag(1) al(1))
  have len: "length ?rsi = length closes"
    using ag(2) al(2) gs(2) ls(2) by simp
  have pt: "?rsi ! i = (if map Fin ag ! i = Fin 0 then NaN else Fin 100)"
    if i: "i < length closes" and z: "map Fin al ! i = Fin 0" for i
  proof -
    have ia: "i < length ag" "i < length al" using i ag(2) al(2) gs(2) ls(2) by simp_all
    have g0: "0 \<le> ag ! i" using ag(3) ia(1) by simp
    have l0: "al ! i = 0" using z ia(2) by simp
    have "?rsi ! i = rsi_of (Fin (ag ! i)) (Fin (al ! i))"
      using ia by simp
    then show ?thesis using rsi_of_zero_loss [OF g0] l0 ia by simp
  qed
  show ?thesis
    using r len pt gs(1) ls(1) ag(1) al(1)
    by (intro exI [of _ ?rsi] exI [of _ "map Fin ag"] exI [of _ "map Fin al"]) simp
qed

theorem rsi_at_zero_average_loss_witness:
  "1 \<le> (14::int) \<and>
   (\<exists>rsi. add_rsi [1.1000, 1.1000, 1.1010] 14 = Inr rsi \<and> length rsi = 3 \<and>
      rsi ! 0 = NaN \<and> rsi ! 1 = NaN \<and> rsi ! 2 = Fin 100)"
proof -
  have p: "1 \<le> (14::int)" by simp
  obtain rsi avg_gain avg_loss where
    r: "add_rsi [1.1000, 1.1000, 1.1010] 14 = Inr rsi"
    and g: "ewm_mean 14 (rsi_gain [1.1000, 1.1000, 1.1010]) = Inr avg_gain"
    and l: "ewm_mean 14 (rsi_loss [1.1000, 1.1000, 1.1010]) = Inr avg_loss"
    and n: "length rsi = length [1.1000, 1.1000, 1.1010 :: real]"
    and z: "\<forall>i < length [1.1000, 1.1000, 1.1010 :: real]. avg_loss ! i = Fin 0 \<longrightarrow>
              rsi ! i = (if avg_gain ! i = Fin 0 then NaN else Fin 100)"
    using rsi_at_zero_average_loss [OF p, of "[1.1000, 1.1000, 1.1010]"] by blast
  have "ewm_mean 14 (rsi_gain [1.1000, 1.1000, 1.1010]) = Inr [Fin 0, Fin 0, Fin (1 / 7500)]"
    by code_simp
  then have ag: "avg_gain = [Fin 0, Fin 0, Fin (1 / 7500)]" using g by simp
  have "ewm_mean 14 (rsi_loss [1.1000, 1.1000, 1.1010]) = Inr [Fin 0, Fin 0, Fin 0]"
    by code_simp
  then have al: "avg_loss = [Fin 0, Fin 0, Fin 0]" using l by simp
  have "rsi ! 0 = NaN" "rsi ! 1 = NaN" "rsi ! 2 = Fin 100"
    using z ag al by simp_all
  then show ?thesis using p r n by simp
qed

end
